theory Spec2Isabelle
  imports Complex_Main
begin

section \<open>Scalars: numpy float64 values\<close>

text \<open>
  Every number the sampler handles is a numpy \<open>float64\<close>: \<open>func.mean()\<close> and
  \<open>func.pdf(x)\<close> of a frozen scipy distribution return \<open>numpy.float64\<close>, and so do the sum
  \<open>old_x + np.random.normal(0, 0.5)\<close> and the quotient \<open>new_prob / old_prob\<close>. On these
  values a division by zero does not raise: it yields an infinity or NaN (with a warning).
  A finite value is modelled by the real number it denotes (rounding and overflow of finite
  arithmetic are abstracted, and zero is unsigned); the three special values are kept, with
  the IEEE 754 rules of the operations the sampler uses: \<open>+\<close>, \<open>/\<close> and \<open>>=\<close>.
\<close>

datatype f64 = Fin real | PInf | NInf | NaN

fun f64_add :: "f64 \<Rightarrow> f64 \<Rightarrow> f64" where
  "f64_add NaN y = NaN"
| "f64_add x NaN = NaN"
| "f64_add (Fin a) (Fin b) = Fin (a + b)"
| "f64_add PInf NInf = NaN"
| "f64_add NInf PInf = NaN"
| "f64_add PInf y = PInf"
| "f64_add x PInf = PInf"
| "f64_add NInf y = NInf"
| "f64_add x NInf = NInf"

fun f64_div :: "f64 \<Rightarrow> f64 \<Rightarrow> f64" where
  "f64_div NaN y = NaN"
| "f64_div x NaN = NaN"
| "f64_div (Fin a) (Fin b) =
     (if b \<noteq> 0 then Fin (a / b)
      else if a = 0 then NaN
      else if 0 < a then PInf
      else NInf)"
| "f64_div (Fin a) y = Fin 0"
| "f64_div PInf (Fin b) = (if 0 \<le> b then PInf else NInf)"
| "f64_div NInf (Fin b) = (if 0 \<le> b then NInf else PInf)"
| "f64_div x y = NaN"

fun f64_ge :: "f64 \<Rightarrow> f64 \<Rightarrow> bool" where
  "f64_ge NaN y = False"
| "f64_ge x NaN = False"
| "f64_ge (Fin a) (Fin b) = (b \<le> a)"
| "f64_ge PInf y = True"
| "f64_ge x NInf = True"
| "f64_ge x y = False"

fun f64_lt :: "f64 \<Rightarrow> f64 \<Rightarrow> bool" where
  "f64_lt NaN y = False"
| "f64_lt x NaN = False"
| "f64_lt (Fin a) (Fin b) = (a < b)"
| "f64_lt x NInf = False"
| "f64_lt NInf y = True"
| "f64_lt PInf y = False"
| "f64_lt x PInf = True"

section \<open>The collaborators: target distribution and random source\<close>

text \<open>
  \<open>func\<close> is the frozen distribution handed to \<open>metropolis\<close>; the sampler calls
  \<open>func.mean()\<close> once and \<open>func.pdf(x)\<close> once per iteration and once at the start.
\<close>

record func =
  mean :: f64
  pdf :: "f64 \<Rightarrow> f64"

text \<open>
  The random source is numpy's global generator, which is not part of the repository. It is
  taken as a parameter: a generator state of some type \<open>'g\<close> and the two calls the sampler
  makes on it, each returning the value drawn together with the generator's next state.
  \<open>np_random_normal R loc scale\<close> stands for \<open>np.random.normal(loc, scale)\<close> and
  \<open>np_random_random R\<close> for \<open>np.random.random()\<close>; both return finite floats.
\<close>

record 'g random_source =
  np_random_normal :: "real \<Rightarrow> real \<Rightarrow> 'g \<Rightarrow> real \<times> 'g"
  np_random_random :: "'g \<Rightarrow> real \<times> 'g"

section \<open>The sampler\<close>

text \<open>
  \<^verbatim>\<open>
  def metropolis(func, steps=10000):
      samples = np.zeros(steps)
      old_x = func.mean()
      old_prob = func.pdf(old_x)

      for i in range(steps):
          new_x = old_x + np.random.normal(0, 0.5)
          new_prob = func.pdf(new_x)
          acceptance = new_prob / old_prob
          if acceptance >= np.random.random():
              samples[i] = new_x
              old_x = new_x
              old_prob = new_prob
          else:
              samples[i] = old_x
      return samples
  \<close>
  The local variables and the generator form the state that the loop body transforms.
\<close>

datatype error = ValueError

record 'g vars =
  samples :: "f64 list"
  old_x :: f64
  old_prob :: f64
  rng :: 'g

text \<open>\<open>np.zeros(n)\<close> for \<open>n \<ge> 0\<close>; a negative \<open>n\<close> raises \<open>ValueError\<close> (see \<open>metropolis\<close>).\<close>

definition np_zeros :: "nat \<Rightarrow> f64 list" where
  "np_zeros n = replicate n (Fin 0)"

text \<open>
  One pass through the loop body with loop index \<open>i\<close>. The index is always within the array
  (\<open>i\<close> ranges over \<open>range(steps)\<close> and the array has \<open>steps\<close> entries), so the
  \<open>IndexError\<close> of an out-of-range store cannot occur.
\<close>

definition body :: "'g random_source \<Rightarrow> func \<Rightarrow> nat \<Rightarrow> 'g vars \<Rightarrow> 'g vars" where
  "body R f i s =
     (let (z, g1) = np_random_normal R 0 (1/2) (rng s);
          new_x = f64_add (old_x s) (Fin z);
          new_prob = pdf f new_x;
          acceptance = f64_div new_prob (old_prob s);
          (u, g2) = np_random_random R g1
      in if f64_ge acceptance (Fin u)
         then s\<lparr>samples := (samples s)[i := new_x], old_x := new_x,
                old_prob := new_prob, rng := g2\<rparr>
         else s\<lparr>samples := (samples s)[i := old_x s], rng := g2\<rparr>)"

definition init :: "func \<Rightarrow> nat \<Rightarrow> 'g \<Rightarrow> 'g vars" where
  "init f n g =
     \<lparr>samples = np_zeros n, old_x = mean f, old_prob = pdf f (mean f), rng = g\<rparr>"

text \<open>
  The whole call. It returns the array (or the error raised) and the generator state it
  leaves behind. \<open>np.zeros\<close> is the first statement, so a negative \<open>steps\<close> raises before
  anything else happens; \<open>steps = 0\<close> allocates an empty array and skips the loop. A call
  that leaves \<open>steps\<close> out is the call with \<open>steps = 10000\<close>.
\<close>

definition metropolis ::
  "'g random_source \<Rightarrow> func \<Rightarrow> int \<Rightarrow> 'g \<Rightarrow> (error + f64 list) \<times> 'g" where
  "metropolis R f steps g =
     (if steps < 0 then (Inl ValueError, g)
      else let s = fold (body R f) [0..<nat steps] (init f (nat steps) g)
           in (Inr (samples s), rng s))"

subsection \<open>Names for what one iteration computes\<close>

text \<open>
  The values an iteration started in state \<open>s\<close> computes, named after the source's
  variables, and the state in which iteration \<open>i\<close> of a call starts.
\<close>

definition offset :: "'g random_source \<Rightarrow> 'g vars \<Rightarrow> real" where
  "offset R s = fst (np_random_normal R 0 (1/2) (rng s))"

definition new_x :: "'g random_source \<Rightarrow> 'g vars \<Rightarrow> f64" where
  "new_x R s = f64_add (old_x s) (Fin (offset R s))"

definition new_prob :: "'g random_source \<Rightarrow> func \<Rightarrow> 'g vars \<Rightarrow> f64" where
  "new_prob R f s = pdf f (new_x R s)"

definition acceptance :: "'g random_source \<Rightarrow> func \<Rightarrow> 'g vars \<Rightarrow> f64" where
  "acceptance R f s = f64_div (new_prob R f s) (old_prob s)"

definition uniform_draw :: "'g random_source \<Rightarrow> 'g vars \<Rightarrow> real" where
  "uniform_draw R s =
     fst (np_random_random R (snd (np_random_normal R 0 (1/2) (rng s))))"

definition rng_after :: "'g random_source \<Rightarrow> 'g \<Rightarrow> 'g" where
  "rng_after R g = snd (np_random_random R (snd (np_random_normal R 0 (1/2) g)))"

definition accepted :: "'g random_source \<Rightarrow> func \<Rightarrow> 'g vars \<Rightarrow> bool" where
  "accepted R f s = f64_ge (acceptance R f s) (Fin (uniform_draw R s))"

definition at_iteration :: "'g random_source \<Rightarrow> func \<Rightarrow> int \<Rightarrow> 'g \<Rightarrow> nat \<Rightarrow> 'g vars" where
  "at_iteration R f steps g i = fold (body R f) [0..<i] (init f (nat steps) g)"

subsection \<open>Observing the random source\<close>

text \<open>
  To count and order the draws of a call, a random source is wrapped so that its state
  carries a log of the calls made on it, each with its arguments. The wrapper answers every
  call as the wrapped source does.
\<close>

datatype call = NormalCall real real | RandomCall

definition logged :: "'g random_source \<Rightarrow> ('g \<times> call list) random_source" where
  "logged R =
     \<lparr>np_random_normal = (\<lambda>loc scale (g, calls).
        (fst (np_random_normal R loc scale g),
         (snd (np_random_normal R loc scale g), calls @ [NormalCall loc scale]))),
      np_random_random = (\<lambda>(g, calls).
        (fst (np_random_random R g), (snd (np_random_random R g), calls @ [RandomCall])))\<rparr>"

fun is_normal_call :: "call \<Rightarrow> bool" where
  "is_normal_call (NormalCall loc scale) = True"
| "is_normal_call RandomCall = False"

text \<open>
  Two random sources deliver the same draws from related states: the relation \<open>Q\<close> is kept
  by both calls, and related states answer each call with the same value. Two generators
  set to the same seed are the case where the sources are the same and \<open>Q\<close> is equality.
\<close>

definition same_draws ::
  "('g \<Rightarrow> 'h \<Rightarrow> bool) \<Rightarrow> 'g random_source \<Rightarrow> 'h random_source \<Rightarrow> bool" where
  "same_draws Q R R' \<longleftrightarrow>
     (\<forall>a b. Q a b \<longrightarrow>
        fst (np_random_normal R 0 (1/2) a) = fst (np_random_normal R' 0 (1/2) b) \<and>
        Q (snd (np_random_normal R 0 (1/2) a)) (snd (np_random_normal R' 0 (1/2) b)) \<and>
        fst (np_random_random R a) = fst (np_random_random R' b) \<and>
        Q (snd (np_random_random R a)) (snd (np_random_random R' b)))"

text \<open>
  Two states of the loop that agree on every variable of the sampler and hold related
  generators.
\<close>

definition vars_rel :: "('g \<Rightarrow> 'h \<Rightarrow> bool) \<Rightarrow> 'g vars \<Rightarrow> 'h vars \<Rightarrow> bool" where
  "vars_rel Q s t \<longleftrightarrow>
     samples s = samples t \<and> old_x s = old_x t \<and> old_prob s = old_prob t \<and>
     Q (rng s) (rng t)"

subsection \<open>Concrete collaborators\<close>

text \<open>
  A random source that replays a recorded list of draws, whatever the arguments of the call
  (and answers 0 once the list is used up): the source of a test that fixes the draws.
\<close>

definition scripted :: "(real list) random_source" where
  "scripted =
     \<lparr>np_random_normal = (\<lambda>loc scale tape. case tape of [] \<Rightarrow> (0, []) | x # xs \<Rightarrow> (x, xs)),
      np_random_random = (\<lambda>tape. case tape of [] \<Rightarrow> (0, []) | x # xs \<Rightarrow> (x, xs))\<rparr>"

text \<open>The standard normal distribution \<open>stats.norm(0, 1)\<close>: mean 0, density \<open>phi\<close>.\<close>

definition phi :: "real \<Rightarrow> real" where
  "phi x = exp (- (x\<^sup>2) / 2) / sqrt (2 * pi)"

definition standard_normal :: func where
  "standard_normal =
     \<lparr>mean = Fin 0,
      pdf = (\<lambda>x. case x of Fin r \<Rightarrow> Fin (phi r) | NaN \<Rightarrow> NaN | _ \<Rightarrow> Fin 0)\<rparr>"

text \<open>The uniform distribution on \<open>[-1, 1]\<close>, \<open>stats.uniform(-1, 2)\<close>: mean 0, density 1/2
  on the interval and 0 outside it.\<close>

definition uniform_box :: func where
  "uniform_box =
     \<lparr>mean = Fin 0,
      pdf = (\<lambda>x. case x of
               Fin r \<Rightarrow> if - 1 \<le> r \<and> r \<le> 1 then Fin (1/2) else Fin 0
             | NaN \<Rightarrow> NaN
             | _ \<Rightarrow> Fin 0)\<rparr>"

text \<open>The double gamma distribution with shape 2, \<open>stats.dgamma(2)\<close>: mean 0 and density
  \<open>|x| exp(-|x|) / 2\<close>, which is zero at the mean.\<close>

definition double_gamma :: func where
  "double_gamma =
     \<lparr>mean = Fin 0,
      pdf = (\<lambda>x. case x of
               Fin r \<Rightarrow> Fin (\<bar>r\<bar> * exp (- \<bar>r\<bar>) / 2)
             | NaN \<Rightarrow> NaN
             | _ \<Rightarrow> Fin 0)\<rparr>"

section \<open>Basic facts about the loop\<close>

lemma body_unfold:
  "body R f i s =
     (if accepted R f s
      then s\<lparr>samples := (samples s)[i := new_x R s], old_x := new_x R s,
             old_prob := new_prob R f s, rng := rng_after R (rng s)\<rparr>
      else s\<lparr>samples := (samples s)[i := old_x s], rng := rng_after R (rng s)\<rparr>)"
  by (simp add: body_def accepted_def acceptance_def new_prob_def new_x_def offset_def
      uniform_draw_def rng_after_def split_def Let_def)

lemma samples_body:
  "samples (body R f i s) =
     (samples s)[i := (if accepted R f s then new_x R s else old_x s)]"
  by (simp add: body_unfold)

lemma rng_body: "rng (body R f i s) = rng_after R (rng s)"
  by (simp add: body_unfold)

lemma length_samples_fold:
  "length (samples (fold (body R f) js s)) = length (samples s)"
  by (induction js arbitrary: s) (simp_all add: samples_body)

lemma samples_fold_other:
  "i \<notin> set js \<Longrightarrow> samples (fold (body R f) js s) ! i = samples s ! i"
  by (induction js arbitrary: s) (simp_all add: samples_body)

lemma at_iteration_Suc:
  "at_iteration R f steps g (Suc i) = body R f i (at_iteration R f steps g i)"
  by (simp add: at_iteration_def)

lemma length_at_iteration:
  "length (samples (at_iteration R f steps g i)) = nat steps"
  by (simp add: at_iteration_def length_samples_fold init_def np_zeros_def)

lemma fold_split_at:
  assumes "i < n"
  shows "fold (body R f) [0..<n] s =
         fold (body R f) [Suc i..<n] (body R f i (fold (body R f) [0..<i] s))"
proof -
  from assms have "[0..<n] = [0..<i] @ i # [Suc i..<n]"
    by (metis less_imp_le_nat upt_add_eq_append upt_conv_Cons le0 le_add_diff_inverse)
  then show ?thesis by simp
qed


lemma final_sample:
  assumes "i < nat steps"
  shows "samples (at_iteration R f steps g (nat steps)) ! i =
         (if accepted R f (at_iteration R f steps g i)
          then new_x R (at_iteration R f steps g i)
          else old_x (at_iteration R f steps g i))"
proof -
  let ?s = "at_iteration R f steps g i"
  have "at_iteration R f steps g (nat steps) =
        fold (body R f) [Suc i..<nat steps] (body R f i ?s)"
    unfolding at_iteration_def by (rule fold_split_at [OF assms])
  then have "samples (at_iteration R f steps g (nat steps)) ! i =
        samples (fold (body R f) [Suc i..<nat steps] (body R f i ?s)) ! i"
    by simp
  also have "\<dots> = samples (body R f i ?s) ! i"
    by (rule samples_fold_other) simp
  also have "\<dots> = (if accepted R f ?s then new_x R ?s else old_x ?s)"
    using assms by (simp add: samples_body length_at_iteration)
  finally show ?thesis .
qed

lemma f64_lt_not_ge: "f64_lt a b \<Longrightarrow> \<not> f64_ge a b"
  by (cases a; cases b) simp_all

lemma old_x_body:
  "old_x (body R f i s) = (if accepted R f s then new_x R s else old_x s)"
  by (simp add: body_unfold)

lemma old_prob_body:
  "old_prob (body R f i s) = (if accepted R f s then new_prob R f s else old_prob s)"
  by (simp add: body_unfold)

lemma metropolis_Inr:
  assumes "metropolis R f steps g = (Inr out, g')"
  shows "0 \<le> steps \<and> out = samples (at_iteration R f steps g (nat steps))"
  using assms by (auto simp: metropolis_def at_iteration_def Let_def split: if_splits)

subsection \<open>A worked run\<close>

text \<open>
  The uniform target on \<open>[-1, 1]\<close>, two steps, and the draws 1/4, 1/2, 1, 1/2 in this order:
  iteration 0 proposes 1/4 (ratio 1, accepted against 1/2), iteration 1 proposes 5/4, outside
  the support (ratio 0, rejected against 1/2).
\<close>

lemmas eval_defs = metropolis_def body_def init_def np_zeros_def at_iteration_def Let_def
  acceptance_def new_prob_def new_x_def offset_def uniform_draw_def accepted_def

lemma box_run:
  "metropolis scripted uniform_box 2 [1/4, 1/2, 1, 1/2] = (Inr [Fin (1/4), Fin (1/4)], [])"
  by (simp add: eval_defs scripted_def uniform_box_def upt_rec numeral_2_eq_2)

lemma box_at_0:
  "at_iteration scripted uniform_box 2 [1/4, 1/2, 1, 1/2] 0 =
     \<lparr>samples = [Fin 0, Fin 0], old_x = Fin 0, old_prob = Fin (1/2), rng = [1/4, 1/2, 1, 1/2]\<rparr>"
  by (simp add: eval_defs scripted_def uniform_box_def numeral_2_eq_2)

lemma box_at_1:
  "at_iteration scripted uniform_box 2 [1/4, 1/2, 1, 1/2] (Suc 0) =
     \<lparr>samples = [Fin (1/4), Fin 0], old_x = Fin (1/4), old_prob = Fin (1/2), rng = [1, 1/2]\<rparr>"
  by (simp add: eval_defs scripted_def uniform_box_def numeral_2_eq_2)

lemma box_at_2:
  "at_iteration scripted uniform_box 2 [1/4, 1/2, 1, 1/2] (Suc (Suc 0)) =
     \<lparr>samples = [Fin (1/4), Fin (1/4)], old_x = Fin (1/4), old_prob = Fin (1/2), rng = []\<rparr>"
  by (simp add: eval_defs scripted_def uniform_box_def numeral_2_eq_2)

section \<open>Acceptance and rejection\<close>

text \<open>
  Claim C1. In every iteration \<open>i\<close> of a call in which the acceptance ratio
  \<open>new_prob / old_prob\<close> is greater than or equal to the uniform draw, entry \<open>i\<close> of the
  returned array is the candidate \<open>new_x\<close> (the current position plus the normal offset drawn
  in that iteration), and the candidate and its density are the current position and density
  with which iteration \<open>i + 1\<close> starts.
\<close>

theorem acceptance_correct:
  assumes run: "metropolis R f steps g = (Inr out, g')"
    and i: "i < nat steps"
    and acc: "f64_ge (acceptance R f (at_iteration R f steps g i))
                (Fin (uniform_draw R (at_iteration R f steps g i)))"
  shows "out ! i = new_x R (at_iteration R f steps g i) \<and>
         new_x R (at_iteration R f steps g i) =
           f64_add (old_x (at_iteration R f steps g i))
             (Fin (fst (np_random_normal R 0 (1/2) (rng (at_iteration R f steps g i))))) \<and>
         old_x (at_iteration R f steps g (Suc i)) = new_x R (at_iteration R f steps g i) \<and>
         old_prob (at_iteration R f steps g (Suc i)) =
           new_prob R f (at_iteration R f steps g i)"
proof -
  from acc have a: "accepted R f (at_iteration R f steps g i)"
    by (simp add: accepted_def)
  from run have out: "out = samples (at_iteration R f steps g (nat steps))"
    by (simp add: metropolis_Inr)
  from a i out have "out ! i = new_x R (at_iteration R f steps g i)"
    by (simp add: final_sample)
  moreover have "new_x R (at_iteration R f steps g i) =
           f64_add (old_x (at_iteration R f steps g i))
             (Fin (fst (np_random_normal R 0 (1/2) (rng (at_iteration R f steps g i)))))"
    by (simp add: new_x_def offset_def)
  moreover from a have "old_x (at_iteration R f steps g (Suc i)) =
      new_x R (at_iteration R f steps g i)"
    by (simp add: at_iteration_Suc old_x_body)
  moreover from a have "old_prob (at_iteration R f steps g (Suc i)) =
      new_prob R f (at_iteration R f steps g i)"
    by (simp add: at_iteration_Suc old_prob_body)
  ultimately show ?thesis by blast
qed

theorem acceptance_correct_witness:
  "metropolis scripted uniform_box 2 [1/4, 1/2, 1, 1/2] = (Inr [Fin (1/4), Fin (1/4)], []) \<and>
   (0::nat) < nat 2 \<and>
   f64_ge (acceptance scripted uniform_box
             (at_iteration scripted uniform_box 2 [1/4, 1/2, 1, 1/2] 0))
          (Fin (uniform_draw scripted
             (at_iteration scripted uniform_box 2 [1/4, 1/2, 1, 1/2] 0))) \<and>
   [Fin (1/4), Fin (1/4)] ! 0 =
     new_x scripted (at_iteration scripted uniform_box 2 [1/4, 1/2, 1, 1/2] 0) \<and>
   new_x scripted (at_iteration scripted uniform_box 2 [1/4, 1/2, 1, 1/2] 0) = Fin (1/4) \<and>
   old_x (at_iteration scripted uniform_box 2 [1/4, 1/2, 1, 1/2] (Suc 0)) = Fin (1/4) \<and>
   old_prob (at_iteration scripted uniform_box 2 [1/4, 1/2, 1, 1/2] (Suc 0)) = Fin (1/2)"
proof -
  have h1: "metropolis scripted uniform_box 2 [1/4, 1/2, 1, 1/2] =
      (Inr [Fin (1/4), Fin (1/4)], [])"
    by (rule box_run)
  have h2: "(0::nat) < nat 2" by simp
  have h3: "f64_ge (acceptance scripted uniform_box
             (at_iteration scripted uniform_box 2 [1/4, 1/2, 1, 1/2] 0))
          (Fin (uniform_draw scripted
             (at_iteration scripted uniform_box 2 [1/4, 1/2, 1, 1/2] 0)))"
    unfolding box_at_0 by (simp add: acceptance_def new_prob_def new_x_def offset_def uniform_draw_def
        scripted_def uniform_box_def)
  have h4: "new_x scripted (at_iteration scripted uniform_box 2 [1/4, 1/2, 1, 1/2] 0) = Fin (1/4)"
    unfolding box_at_0 by (simp add: new_x_def offset_def scripted_def)
  have h5: "new_prob scripted uniform_box
      (at_iteration scripted uniform_box 2 [1/4, 1/2, 1, 1/2] 0) = Fin (1/2)"
    unfolding box_at_0 by (simp add: new_prob_def new_x_def offset_def scripted_def uniform_box_def)
  from acceptance_correct [OF h1 h2 h3] h1 h2 h3 h4 h5 show ?thesis by simp
qed

text \<open>
  Claim C2. In every iteration \<open>i\<close> of a call in which the acceptance ratio is strictly less
  than the uniform draw, entry \<open>i\<close> of the returned array is the unchanged current position
  \<open>old_x\<close>, and the current position and the cached density are the same after the iteration
  as before it.
\<close>

theorem rejection_correct:
  assumes run: "metropolis R f steps g = (Inr out, g')"
    and i: "i < nat steps"
    and rej: "f64_lt (acceptance R f (at_iteration R f steps g i))
                (Fin (uniform_draw R (at_iteration R f steps g i)))"
  shows "out ! i = old_x (at_iteration R f steps g i) \<and>
         old_x (at_iteration R f steps g (Suc i)) = old_x (at_iteration R f steps g i) \<and>
         old_prob (at_iteration R f steps g (Suc i)) =
           old_prob (at_iteration R f steps g i)"
proof -
  from rej have a: "\<not> accepted R f (at_iteration R f steps g i)"
    by (simp add: accepted_def f64_lt_not_ge)
  from run have out: "out = samples (at_iteration R f steps g (nat steps))"
    by (simp add: metropolis_Inr)
  from a i out have "out ! i = old_x (at_iteration R f steps g i)"
    by (simp add: final_sample)
  moreover from a have "old_x (at_iteration R f steps g (Suc i)) =
      old_x (at_iteration R f steps g i)"
    by (simp add: at_iteration_Suc old_x_body)
  moreover from a have "old_prob (at_iteration R f steps g (Suc i)) =
      old_prob (at_iteration R f steps g i)"
    by (simp add: at_iteration_Suc old_prob_body)
  ultimately show ?thesis by blast
qed


theorem rejection_correct_witness:
  "metropolis scripted uniform_box 2 [1/4, 1/2, 1, 1/2] = (Inr [Fin (1/4), Fin (1/4)], []) \<and>
   Suc 0 < nat 2 \<and>
   f64_lt (acceptance scripted uniform_box
             (at_iteration scripted uniform_box 2 [1/4, 1/2, 1, 1/2] (Suc 0)))
          (Fin (uniform_draw scripted
             (at_iteration scripted uniform_box 2 [1/4, 1/2, 1, 1/2] (Suc 0)))) \<and>
   new_x scripted (at_iteration scripted uniform_box 2 [1/4, 1/2, 1, 1/2] (Suc 0)) = Fin (5/4) \<and>
   [Fin (1/4), Fin (1/4)] ! Suc 0 =
     old_x (at_iteration scripted uniform_box 2 [1/4, 1/2, 1, 1/2] (Suc 0)) \<and>
   old_x (at_iteration scripted uniform_box 2 [1/4, 1/2, 1, 1/2] (Suc (Suc 0))) =
     old_x (at_iteration scripted uniform_box 2 [1/4, 1/2, 1, 1/2] (Suc 0)) \<and>
   old_prob (at_iteration scripted uniform_box 2 [1/4, 1/2, 1, 1/2] (Suc (Suc 0))) =
     old_prob (at_iteration scripted uniform_box 2 [1/4, 1/2, 1, 1/2] (Suc 0))"
proof -
  have h1: "metropolis scripted uniform_box 2 [1/4, 1/2, 1, 1/2] =
      (Inr [Fin (1/4), Fin (1/4)], [])"
    by (rule box_run)
  have h2: "Suc 0 < nat 2" by simp
  have h3: "f64_lt (acceptance scripted uniform_box
             (at_iteration scripted uniform_box 2 [1/4, 1/2, 1, 1/2] (Suc 0)))
          (Fin (uniform_draw scripted
             (at_iteration scripted uniform_box 2 [1/4, 1/2, 1, 1/2] (Suc 0))))"
    unfolding box_at_1 by (simp add: acceptance_def new_prob_def new_x_def offset_def uniform_draw_def
        scripted_def uniform_box_def)
  have h4: "new_x scripted (at_iteration scripted uniform_box 2 [1/4, 1/2, 1, 1/2] (Suc 0)) =
      Fin (5/4)"
    unfolding box_at_1 by (simp add: new_x_def offset_def scripted_def)
  from rejection_correct [OF h1 h2 h3] h1 h2 h3 h4 show ?thesis by simp
qed

section \<open>Length of the result\<close>



section \<open>The concrete scenario\<close>

lemma phi_ratio: "phi (3/10) / phi 0 = exp (- (9/200))"
proof -
  have "sqrt (2 * pi) \<noteq> 0" by simp
  then show ?thesis by (simp add: phi_def power2_eq_square)
qed

lemma exp_045_bounds: "955/1000 < exp (- (9/200) :: real) \<and> exp (- (9/200) :: real) < 9561/10000"
proof -
  let ?x = "9/200 :: real"
  have lo: "1 + ?x + ?x\<^sup>2 / 2 \<le> exp ?x"
    by (rule exp_lower_Taylor_quadratic) simp
  have hi: "exp ?x \<le> 1 + ?x + ?x\<^sup>2"
    by (rule exp_bound) simp_all
  have pos: "0 < exp ?x" by simp
  have inv: "exp (- ?x) = 1 / exp ?x" by (simp add: exp_minus inverse_eq_divide)
  from lo have "10460/10000 < exp ?x" by (simp add: power2_eq_square)
  then have "1 / exp ?x < 1 / (10460/10000)"
    by (intro divide_strict_left_mono) (simp_all)
  then have up: "exp (- ?x) < 9561/10000" using inv by simp
  from hi have "exp ?x < 10471/10000" by (simp add: power2_eq_square)
  then have "1 / (10471/10000) < 1 / exp ?x"
    using pos by (intro divide_strict_left_mono) (simp_all)
  then have low: "955/1000 < exp (- ?x)" using inv by simp
  from low up show ?thesis by blast
qed

lemma standard_normal_at_0:
  "at_iteration R standard_normal 1 g 0 =
     \<lparr>samples = [Fin 0], old_x = Fin 0, old_prob = Fin (phi 0), rng = g\<rparr>"
  by (simp add: at_iteration_def init_def np_zeros_def standard_normal_def)

lemma pdf_standard_normal: "pdf standard_normal (Fin r) = Fin (phi r)"
  by (simp add: standard_normal_def)

lemma phi_pos: "0 < phi x"
  by (simp add: phi_def)

lemma exp_045_tight:
  "9559/10000 < exp (- (9/200) :: real) \<and> exp (- (9/200) :: real) < 9561/10000"
proof -
  have "(1 + (- (9/200)) / of_nat 16) ^ 16 \<le> exp (- (9/200) :: real)"
    by (rule exp_ge_one_plus_x_over_n_power_n) simp_all
  moreover have "(9559/10000 :: real) < (1 + (- (9/200)) / of_nat 16) ^ 16"
    by (simp add: power_divide)
  ultimately have "9559/10000 < exp (- (9/200) :: real)"
    by (rule less_le_trans [rotated])
  with exp_045_bounds show ?thesis by blast
qed

lemma ratio_value:
  "\<bar>phi (3/10) / phi 0 - 9560/10000\<bar> < 1/10000 \<and> 1/10 \<le> phi (3/10) / phi 0"
  unfolding phi_ratio using exp_045_tight by linarith

text \<open>
  Claim C4, as amended. Target the standard normal centred at 0 (so the initial position is
  its mean 0), one step, the fixed proposal standard deviation 0.5, a normal draw of exactly
  0.3 and a uniform draw of 0.1: the candidate position is 0.3, the acceptance ratio is
  \<open>phi 0.3 / phi 0 = exp (-0.045)\<close>, which is 0.9560 to four decimals and at least 0.1; the
  candidate is accepted: the loop body stores 0.3 in entry 0, makes 0.3 the current position
  and \<open>phi 0.3\<close> the current density, and the call returns \<open>[0.3]\<close>.
\<close>

theorem concrete_scenario:
  assumes n: "np_random_normal R 0 (1/2) g = (3/10, g1)"
    and u: "np_random_random R g1 = (1/10, g2)"
  shows "f64_add (mean standard_normal) (Fin (3/10)) = Fin (3/10) \<and>
         f64_div (pdf standard_normal (Fin (3/10)))
                 (pdf standard_normal (mean standard_normal)) = Fin (phi (3/10) / phi 0) \<and>
         new_x R (at_iteration R standard_normal 1 g 0) = Fin (3/10) \<and>
         acceptance R standard_normal (at_iteration R standard_normal 1 g 0) =
           Fin (phi (3/10) / phi 0) \<and>
         \<bar>phi (3/10) / phi 0 - 9560/10000\<bar> < 1/10000 \<and>
         f64_ge (Fin (phi (3/10) / phi 0)) (Fin (1/10)) \<and>
         body R standard_normal 0 (init standard_normal 1 g) =
           \<lparr>samples = [Fin (3/10)], old_x = Fin (3/10), old_prob = Fin (phi (3/10)),
            rng = g2\<rparr> \<and>
         old_x (at_iteration R standard_normal 1 g (Suc 0)) = Fin (3/10) \<and>
         old_prob (at_iteration R standard_normal 1 g (Suc 0)) = Fin (phi (3/10)) \<and>
         metropolis R standard_normal 1 g = (Inr [Fin (3/10)], g2)"
proof -
  let ?s = "at_iteration R standard_normal 1 g 0"
  have nz: "phi 0 \<noteq> 0" using phi_pos [of 0] by simp
  have s0: "?s = init standard_normal 1 g"
    by (simp add: at_iteration_def)
  have c: "f64_add (mean standard_normal) (Fin (3/10)) = Fin (3/10)"
    by (simp add: standard_normal_def)
  have q: "f64_div (pdf standard_normal (Fin (3/10)))
      (pdf standard_normal (mean standard_normal)) = Fin (phi (3/10) / phi 0)"
    using nz by (simp add: standard_normal_def)
  have x: "new_x R ?s = Fin (3/10)"
    unfolding standard_normal_at_0 by (simp add: new_x_def offset_def n)
  have p: "new_prob R standard_normal ?s = Fin (phi (3/10))"
    by (simp add: new_prob_def x pdf_standard_normal)
  have a: "acceptance R standard_normal ?s = Fin (phi (3/10) / phi 0)"
    unfolding acceptance_def p unfolding standard_normal_at_0 using nz by simp
  have d: "uniform_draw R ?s = 1/10"
    unfolding standard_normal_at_0 by (simp add: uniform_draw_def n u)
  have r: "rng_after R g = g2"
    by (simp add: rng_after_def n u)
  have b1: "\<bar>phi (3/10) / phi 0 - 9560/10000\<bar> < 1/10000"
    using ratio_value by blast
  have b2: "f64_ge (Fin (phi (3/10) / phi 0)) (Fin (1/10))"
    unfolding f64_ge.simps using ratio_value by blast
  have acc: "accepted R standard_normal ?s"
    unfolding accepted_def a d by (rule b2)
  have b: "body R standard_normal 0 ?s =
      \<lparr>samples = [Fin (3/10)], old_x = Fin (3/10), old_prob = Fin (phi (3/10)), rng = g2\<rparr>"
    using acc x p r by (simp add: body_unfold standard_normal_at_0)
  then have b': "body R standard_normal 0 (init standard_normal 1 g) =
      \<lparr>samples = [Fin (3/10)], old_x = Fin (3/10), old_prob = Fin (phi (3/10)), rng = g2\<rparr>"
    by (simp add: s0)
  from b have s1: "at_iteration R standard_normal 1 g (Suc 0) =
      \<lparr>samples = [Fin (3/10)], old_x = Fin (3/10), old_prob = Fin (phi (3/10)), rng = g2\<rparr>"
    by (simp add: at_iteration_Suc)
  have ox: "old_x (at_iteration R standard_normal 1 g (Suc 0)) = Fin (3/10)"
    and op: "old_prob (at_iteration R standard_normal 1 g (Suc 0)) = Fin (phi (3/10))"
    by (simp_all add: s1)
  have "metropolis R standard_normal 1 g = (Inr (samples (body R standard_normal 0 ?s)),
      rng (body R standard_normal 0 ?s))"
    by (simp add: metropolis_def at_iteration_def Let_def)
  also have "\<dots> = (Inr [Fin (3/10)], g2)"
    by (simp add: b)
  finally have m: "metropolis R standard_normal 1 g = (Inr [Fin (3/10)], g2)" .
  from c q x a b1 b2 b' ox op m show ?thesis by blast
qed

theorem concrete_scenario_witness:
  "np_random_normal scripted 0 (1/2) [3/10, 1/10] = (3/10, [1/10]) \<and>
   np_random_random scripted [1/10] = (1/10, []) \<and>
   body scripted standard_normal 0 (init standard_normal 1 [3/10, 1/10]) =
     \<lparr>samples = [Fin (3/10)], old_x = Fin (3/10), old_prob = Fin (phi (3/10)), rng = []\<rparr> \<and>
   old_x (at_iteration scripted standard_normal 1 [3/10, 1/10] (Suc 0)) = Fin (3/10) \<and>
   old_prob (at_iteration scripted standard_normal 1 [3/10, 1/10] (Suc 0)) =
     Fin (phi (3/10)) \<and>
   metropolis scripted standard_normal 1 [3/10, 1/10] = (Inr [Fin (3/10)], [])"
proof -
  have h1: "np_random_normal scripted 0 (1/2) [3/10, 1/10] = (3/10, [1/10])"
    by (simp add: scripted_def)
  have h2: "np_random_random scripted [1/10] = (1/10, [])"
    by (simp add: scripted_def)
  from concrete_scenario [OF h1 h2] h1 h2 show ?thesis by blast
qed

text \<open>
  The figure 0.9558 of the claim as stated is not the ratio to four decimals: the ratio
  differs from it by more than 0.0001.
\<close>

theorem concrete_scenario_counterexample:
  "\<not> \<bar>phi (3/10) / phi 0 - 9558/10000\<bar> < 1/10000"
  unfolding phi_ratio using exp_045_tight by linarith

section \<open>Candidates of zero density\<close>

lemma box_zero_run:
  "metropolis scripted uniform_box 1 [3/2, 0] = (Inr [Fin (3/2)], [])"
  by (simp add: eval_defs scripted_def uniform_box_def)

lemma box_zero_at_0:
  "at_iteration scripted uniform_box 1 [3/2, 0] 0 =
     \<lparr>samples = [Fin 0], old_x = Fin 0, old_prob = Fin (1/2), rng = [3/2, 0]\<rparr>"
  by (simp add: eval_defs scripted_def uniform_box_def)

text \<open>
  For every uniform draw \<open>u > 0\<close> a candidate of zero density is rejected when the current
  density is positive: the ratio is zero, the recorded sample is the unchanged current
  position, and position and density are carried over.
\<close>

lemma zero_density_rejected:
  assumes run: "metropolis R f steps g = (Inr out, g')"
    and i: "i < nat steps"
    and cand: "new_prob R f (at_iteration R f steps g i) = Fin 0"
    and cur: "old_prob (at_iteration R f steps g i) = Fin p"
    and p: "0 < p"
    and u: "0 < uniform_draw R (at_iteration R f steps g i)"
  shows "acceptance R f (at_iteration R f steps g i) = Fin 0 \<and>
         out ! i = old_x (at_iteration R f steps g i) \<and>
         old_x (at_iteration R f steps g (Suc i)) = old_x (at_iteration R f steps g i) \<and>
         old_prob (at_iteration R f steps g (Suc i)) =
           old_prob (at_iteration R f steps g i)"
proof -
  let ?s = "at_iteration R f steps g i"
  from cand cur p have ratio: "acceptance R f ?s = Fin 0"
    by (simp add: acceptance_def)
  with u have a: "\<not> accepted R f ?s"
    by (simp add: accepted_def)
  from run have out: "out = samples (at_iteration R f steps g (nat steps))"
    by (simp add: metropolis_Inr)
  from a i out have "out ! i = old_x ?s"
    by (simp add: final_sample)
  moreover from a have "old_x (at_iteration R f steps g (Suc i)) = old_x ?s"
    by (simp add: at_iteration_Suc old_x_body)
  moreover from a have "old_prob (at_iteration R f steps g (Suc i)) = old_prob ?s"
    by (simp add: at_iteration_Suc old_prob_body)
  ultimately show ?thesis using ratio by blast
qed

text \<open>
  Claim C5. In every iteration in which the candidate's density is zero and the current
  density is positive, the proposal is rejected for every uniform draw \<open>u\<close> in \<open>[0, 1)\<close>; the
  text of the notebook says the same (the new state is accepted if the ratio is larger than
  the draw, and otherwise \<open>old_x\<close> is saved). The code tests \<open>acceptance >= u\<close> and breaks this
  at the draw \<open>u = 0\<close>, which \<open>np.random.random()\<close> can return: on the uniform target on
  \<open>[-1, 1]\<close>, with the candidate 3/2 outside the support (density 0, current density 1/2),
  the test \<open>0 >= 0\<close> succeeds and the call records the candidate instead of the current
  position 0.
\<close>

theorem zero_density_accepted_at_zero_draw:
  "new_prob scripted uniform_box (at_iteration scripted uniform_box 1 [3/2, 0] 0) = Fin 0 \<and>
   old_prob (at_iteration scripted uniform_box 1 [3/2, 0] 0) = Fin (1/2) \<and>
   uniform_draw scripted (at_iteration scripted uniform_box 1 [3/2, 0] 0) = 0 \<and>
   acceptance scripted uniform_box (at_iteration scripted uniform_box 1 [3/2, 0] 0) = Fin 0 \<and>
   old_x (at_iteration scripted uniform_box 1 [3/2, 0] 0) = Fin 0 \<and>
   metropolis scripted uniform_box 1 [3/2, 0] = (Inr [Fin (3/2)], []) \<and>
   [Fin (3/2)] ! 0 \<noteq> old_x (at_iteration scripted uniform_box 1 [3/2, 0] 0)"
  unfolding box_zero_run box_zero_at_0
  by (simp add: new_prob_def new_x_def offset_def acceptance_def uniform_draw_def
      scripted_def uniform_box_def)

section \<open>Invalid step counts\<close>

text \<open>
  Claim C6, as amended. The sampler validates nothing itself and has no
  \<open>proposal_stddev\<close> argument (the step size is the constant 0.5). With \<open>steps < 0\<close> the
  call fails with the \<open>ValueError\<close> of the array allocation, before any iteration and
  without drawing from the random source; with \<open>steps = 0\<close> it does not fail: it returns
  the empty array, again without drawing.
\<close>

theorem invalid_steps:
  assumes "steps < 1"
  shows "metropolis R f steps g =
           (if steps < 0 then Inl ValueError else Inr [], g)"
  using assms by (simp add: metropolis_def init_def np_zeros_def)

theorem invalid_steps_witness:
  "(- 1 :: int) < 1 \<and>
   metropolis (logged scripted) uniform_box (- 1) ([1/4, 1/2], []) =
     (Inl ValueError, ([1/4, 1/2], [])) \<and>
   (0 :: int) < 1 \<and>
   metropolis (logged scripted) uniform_box 0 ([1/4, 1/2], []) = (Inr [], ([1/4, 1/2], []))"
proof -
  have h1: "(- 1 :: int) < 1" by simp
  have h2: "(0 :: int) < 1" by simp
  from invalid_steps [OF h1, of "logged scripted" uniform_box "([1/4, 1/2], [])"]
    invalid_steps [OF h2, of "logged scripted" uniform_box "([1/4, 1/2], [])"]
  show ?thesis by simp
qed

text \<open>
  The claim as stated fails at \<open>steps = 0\<close>: the call returns a (empty) sample sequence
  instead of failing.
\<close>

theorem invalid_steps_counterexample:
  "(0 :: int) < 1 \<and> metropolis scripted uniform_box 0 [1/4, 1/2] = (Inr [], [1/4, 1/2])"
  by (simp add: metropolis_def init_def np_zeros_def)

section \<open>The random source: determinism and draws\<close>

lemma body_rel:
  assumes "same_draws Q R R'" and "vars_rel Q s t"
  shows "vars_rel Q (body R f i s) (body R' f i t)"
proof -
  from assms have n: "fst (np_random_normal R 0 (1/2) (rng s)) =
      fst (np_random_normal R' 0 (1/2) (rng t))"
    and qn: "Q (snd (np_random_normal R 0 (1/2) (rng s)))
      (snd (np_random_normal R' 0 (1/2) (rng t)))"
    by (simp_all add: same_draws_def vars_rel_def)
  from assms(1) qn have u: "fst (np_random_random R (snd (np_random_normal R 0 (1/2) (rng s)))) =
      fst (np_random_random R' (snd (np_random_normal R' 0 (1/2) (rng t))))"
    and qu: "Q (rng_after R (rng s)) (rng_after R' (rng t))"
    by (simp_all add: same_draws_def rng_after_def)
  from assms(2) have v: "samples s = samples t" "old_x s = old_x t" "old_prob s = old_prob t"
    by (simp_all add: vars_rel_def)
  from n v have x: "new_x R s = new_x R' t"
    by (simp add: new_x_def offset_def)
  then have p: "new_prob R f s = new_prob R' f t"
    by (simp add: new_prob_def)
  with v u have a: "accepted R f s = accepted R' f t"
    by (simp add: accepted_def acceptance_def uniform_draw_def)
  from x p a v qu show ?thesis
    by (simp add: body_unfold vars_rel_def)
qed

lemma fold_body_rel:
  "same_draws Q R R' \<Longrightarrow> vars_rel Q s t \<Longrightarrow>
   vars_rel Q (fold (body R f) js s) (fold (body R' f) js t)"
  by (induction js arbitrary: s t) (simp_all add: body_rel)

lemma same_draws_logged: "same_draws (\<lambda>a b. a = fst b) R (logged R)"
  by (simp add: same_draws_def logged_def split_def)

text \<open>
  Claim C7. Two invocations with the same target and the same step count whose generators
  start from the same seed return identical arrays. The generator enters the result only
  through the values it draws: any two sources that deliver the same draws from their
  starting states (in particular the same source started twice from the same state) give the
  same result, error or array.
\<close>

theorem metropolis_deterministic:
  assumes "same_draws Q R R'" and "Q g g'"
  shows "fst (metropolis R f steps g) = fst (metropolis R' f steps g')"
proof (cases "steps < 0")
  case True
  then show ?thesis by (simp add: metropolis_def)
next
  case False
  from assms(2) have "vars_rel Q (init f (nat steps) g) (init f (nat steps) g')"
    by (simp add: vars_rel_def init_def)
  from fold_body_rel [OF assms(1) this, of f "[0..<nat steps]"] False
  show ?thesis by (simp add: metropolis_def vars_rel_def Let_def)
qed

theorem metropolis_deterministic_witness:
  "same_draws (=) scripted scripted \<and> [1/4, 1/2, 1, 1/2] = [1/4, 1/2, 1, 1/2 :: real] \<and>
   same_draws (\<lambda>a b. a = fst b) scripted (logged scripted) \<and>
   [1/4, 1/2, 1, 1/2] = fst ([1/4, 1/2, 1, 1/2 :: real], [] :: call list) \<and>
   fst (metropolis scripted uniform_box 2 [1/4, 1/2, 1, 1/2]) =
     fst (metropolis scripted uniform_box 2 [1/4, 1/2, 1, 1/2]) \<and>
   fst (metropolis (logged scripted) uniform_box 2 ([1/4, 1/2, 1, 1/2], [])) =
     Inr [Fin (1/4), Fin (1/4)]"
proof -
  have h1: "same_draws (=) scripted scripted"
    by (simp add: same_draws_def)
  have h2: "[1/4, 1/2, 1, 1/2] = [1/4, 1/2, 1, 1/2 :: real]" by simp
  have h3: "same_draws (\<lambda>a b. a = fst b) scripted (logged scripted)"
    by (rule same_draws_logged)
  have h4: "[1/4, 1/2, 1, 1/2] = fst ([1/4, 1/2, 1, 1/2 :: real], [] :: call list)" by simp
  from metropolis_deterministic [of "(=)" scripted scripted, OF h1 h2, of uniform_box 2]
    metropolis_deterministic [of "\<lambda>a b. a = fst b" scripted "logged scripted", OF h3 h4,
      of uniform_box 2]
    h1 h3
  show ?thesis by (simp add: box_run)
qed

lemma calls_body:
  "snd (rng (body (logged R) f i s)) = snd (rng s) @ [NormalCall 0 (1/2), RandomCall]"
  by (simp add: rng_body rng_after_def logged_def split_def)

lemma calls_fold:
  "snd (rng (fold (body (logged R) f) js s)) =
     snd (rng s) @ concat (replicate (length js) [NormalCall 0 (1/2), RandomCall])"
  by (induction js arbitrary: s) (simp_all add: calls_body)

lemma calls_metropolis:
  "snd (snd (metropolis (logged R) f (int n) (g, cs))) =
     cs @ concat (replicate n [NormalCall 0 (1/2), RandomCall])"
  by (simp add: metropolis_def Let_def calls_fold init_def)

lemma length_concat_pairs:
  "length (concat (replicate n [a, b])) = 2 * n"
  by (induction n) simp_all

lemma filter_normal_pairs:
  "filter is_normal_call (concat (replicate n [NormalCall loc scale, RandomCall])) =
     replicate n (NormalCall loc scale)"
  by (induction n) simp_all

text \<open>
  Claim C8. Every iteration makes exactly two calls on the random source, first
  \<open>np.random.normal\<close> and then \<open>np.random.random\<close>, whether it accepts or rejects (the
  statement holds for every state \<open>s\<close> and target \<open>f\<close>); a call with \<open>N\<close> steps therefore makes
  exactly \<open>2 N\<close> calls, alternating in this order, and leaves the generator in the state
  reached by these calls.
\<close>

theorem draws_per_iteration:
  "snd (rng (body (logged R) f i s)) = snd (rng s) @ [NormalCall 0 (1/2), RandomCall] \<and>
   snd (snd (metropolis (logged R) f (int n) (g, []))) =
     concat (replicate n [NormalCall 0 (1/2), RandomCall]) \<and>
   length (snd (snd (metropolis (logged R) f (int n) (g, [])))) = 2 * n \<and>
   snd (metropolis R f (int n) g) = (rng_after R ^^ n) g"
proof -
  have "rng (fold (body R f) js s') = (rng_after R ^^ length js) (rng s')" for js s'
    by (induction js arbitrary: s') (simp_all add: rng_body funpow_swap1)
  then have "snd (metropolis R f (int n) g) = (rng_after R ^^ n) g"
    by (simp add: metropolis_def Let_def init_def)
  then show ?thesis
    by (simp add: calls_body calls_metropolis length_concat_pairs)
qed

text \<open>
  Claim C9, as amended. The sampler's public operation takes the target and the step count
  only; the proposal standard deviation is not a parameter. In every iteration the offset
  added to the current position is the result of one call \<open>np.random.normal(0, 0.5)\<close>: a
  draw from the zero-mean normal distribution with the fixed standard deviation 0.5.
\<close>

theorem proposal_stddev_fixed:
  "new_x R s = f64_add (old_x s) (Fin (fst (np_random_normal R 0 (1/2) (rng s)))) \<and>
   samples (body R f i s) =
     (samples s)[i := (if accepted R f s then new_x R s else old_x s)] \<and>
   filter is_normal_call (snd (snd (metropolis (logged R) f (int n) (g, [])))) =
     replicate n (NormalCall 0 (1/2))"
  by (simp add: new_x_def offset_def samples_body calls_metropolis filter_normal_pairs)

text \<open>
  The claim as stated fails: a caller who wants the proposal standard deviation 2 has no
  argument to pass it, and the one normal draw of a one-step call still asks for 0.5.
\<close>

theorem proposal_stddev_counterexample:
  "filter is_normal_call
     (snd (snd (metropolis (logged scripted) uniform_box 1 ([1/4, 1/2], [])))) =
     [NormalCall 0 (1/2)] \<and>
   NormalCall 0 (1/2) \<noteq> NormalCall 0 2"
  using calls_metropolis [of scripted uniform_box 1 "[1/4, 1/2]" "[]"] by simp

section \<open>A start at a point of zero density\<close>

lemma stuck_state:
  assumes zero: "pdf f (mean f) = Fin 0"
    and stuck: "\<forall>j<i. new_prob R f (at_iteration R f steps g j) = Fin 0"
  shows "old_x (at_iteration R f steps g i) = mean f \<and>
         old_prob (at_iteration R f steps g i) = Fin 0"
  using stuck
proof (induction i)
  case 0
  show ?case by (simp add: at_iteration_def init_def zero)
next
  case (Suc i)
  let ?s = "at_iteration R f steps g i"
  from Suc have ih: "old_x ?s = mean f" "old_prob ?s = Fin 0"
    by simp_all
  from Suc.prems have "new_prob R f ?s = Fin 0" by simp
  with ih have "\<not> accepted R f ?s"
    by (simp add: accepted_def acceptance_def)
  with ih show ?case
    by (simp add: at_iteration_Suc old_x_body old_prob_body)
qed

lemma gamma_run:
  "metropolis scripted double_gamma 2 [0, 1/2, 1/2, 9/10] = (Inr [Fin 0, Fin (1/2)], [])"
  by (simp add: eval_defs scripted_def double_gamma_def upt_rec numeral_2_eq_2)

lemma gamma_at_0:
  "at_iteration scripted double_gamma 2 [0, 1/2, 1/2, 9/10] 0 =
     \<lparr>samples = [Fin 0, Fin 0], old_x = Fin 0, old_prob = Fin 0, rng = [0, 1/2, 1/2, 9/10]\<rparr>"
  by (simp add: eval_defs scripted_def double_gamma_def numeral_2_eq_2)

lemma gamma_at_1:
  "at_iteration scripted double_gamma 2 [0, 1/2, 1/2, 9/10] (Suc 0) =
     \<lparr>samples = [Fin 0, Fin 0], old_x = Fin 0, old_prob = Fin 0, rng = [1/2, 9/10]\<rparr>"
  by (simp add: eval_defs scripted_def double_gamma_def numeral_2_eq_2)

lemma gamma_one_step:
  "metropolis scripted double_gamma 1 [1/2, 9/10] = (Inr [Fin (1/2)], [])"
  by (simp add: eval_defs scripted_def double_gamma_def)

text \<open>
  Claim C10, as amended. If the target density at the initial position is zero, the chain
  stays at the initial position only as long as every candidate has density zero as well:
  the ratio 0/0 is NaN and the test \<open>NaN >= u\<close> fails, so the initial position is recorded.
  The first candidate of positive density has the ratio +infinity, which passes the test for
  every uniform draw: that candidate (the initial position plus the offset drawn) is
  recorded. Every entry recorded up to there is the initial position, not NaN.
\<close>

theorem zero_start:
  assumes zero: "pdf f (mean f) = Fin 0"
    and run: "metropolis R f steps g = (Inr out, g')"
    and i: "i < nat steps"
    and stuck: "\<forall>j<i. new_prob R f (at_iteration R f steps g j) = Fin 0"
  shows "(\<forall>j<i. out ! j = mean f) \<and>
         (new_prob R f (at_iteration R f steps g i) = Fin 0 \<longrightarrow>
            acceptance R f (at_iteration R f steps g i) = NaN \<and> out ! i = mean f) \<and>
         (\<forall>p>0. new_prob R f (at_iteration R f steps g i) = Fin p \<longrightarrow>
            acceptance R f (at_iteration R f steps g i) = PInf \<and>
            out ! i = f64_add (mean f) (Fin (offset R (at_iteration R f steps g i))))"
proof -
  from run have out: "out = samples (at_iteration R f steps g (nat steps))"
    by (simp add: metropolis_Inr)
  have rejected: "acceptance R f (at_iteration R f steps g k) = NaN \<and> out ! k = mean f"
    if k: "k \<le> i" and z: "new_prob R f (at_iteration R f steps g k) = Fin 0" for k
  proof -
    from stuck k have "\<forall>j<k. new_prob R f (at_iteration R f steps g j) = Fin 0" by simp
    from stuck_state [OF zero this]
    have st: "old_x (at_iteration R f steps g k) = mean f"
      "old_prob (at_iteration R f steps g k) = Fin 0" by simp_all
    from st z have a: "acceptance R f (at_iteration R f steps g k) = NaN"
      by (simp add: acceptance_def)
    then have "\<not> accepted R f (at_iteration R f steps g k)"
      by (simp add: accepted_def)
    with k i out st have "out ! k = mean f"
      by (simp add: final_sample)
    with a show ?thesis by simp
  qed
  have before: "\<forall>j<i. out ! j = mean f"
    using rejected stuck by simp
  have moved: "acceptance R f (at_iteration R f steps g i) = PInf \<and>
      out ! i = f64_add (mean f) (Fin (offset R (at_iteration R f steps g i)))"
    if p: "0 < p" and c: "new_prob R f (at_iteration R f steps g i) = Fin p" for p
  proof -
    from stuck_state [OF zero stuck]
    have st: "old_x (at_iteration R f steps g i) = mean f"
      "old_prob (at_iteration R f steps g i) = Fin 0" by simp_all
    from st c p have a: "acceptance R f (at_iteration R f steps g i) = PInf"
      by (simp add: acceptance_def)
    then have "accepted R f (at_iteration R f steps g i)"
      by (simp add: accepted_def)
    with i out have "out ! i = new_x R (at_iteration R f steps g i)"
      by (simp add: final_sample)
    with st a show ?thesis by (simp add: new_x_def)
  qed
  from before rejected [of i] moved show ?thesis by blast
qed

theorem zero_start_witness:
  "pdf double_gamma (mean double_gamma) = Fin 0 \<and>
   metropolis scripted double_gamma 2 [0, 1/2, 1/2, 9/10] = (Inr [Fin 0, Fin (1/2)], []) \<and>
   Suc 0 < nat 2 \<and>
   new_prob scripted double_gamma
     (at_iteration scripted double_gamma 2 [0, 1/2, 1/2, 9/10] 0) = Fin 0 \<and>
   [Fin 0, Fin (1/2)] ! 0 = mean double_gamma \<and>
   0 < exp (- (1/2) :: real) / 4 \<and>
   new_prob scripted double_gamma
     (at_iteration scripted double_gamma 2 [0, 1/2, 1/2, 9/10] (Suc 0)) =
     Fin (exp (- (1/2)) / 4) \<and>
   acceptance scripted double_gamma
     (at_iteration scripted double_gamma 2 [0, 1/2, 1/2, 9/10] (Suc 0)) = PInf \<and>
   [Fin 0, Fin (1/2)] ! Suc 0 = f64_add (mean double_gamma) (Fin (1/2))"
proof -
  let ?at = "at_iteration scripted double_gamma 2 [0, 1/2, 1/2, 9/10]"
  have h1: "pdf double_gamma (mean double_gamma) = Fin 0"
    by (simp add: double_gamma_def)
  have h2: "metropolis scripted double_gamma 2 [0, 1/2, 1/2, 9/10] =
      (Inr [Fin 0, Fin (1/2)], [])"
    by (rule gamma_run)
  have h3: "Suc 0 < nat 2" by simp
  have h0: "new_prob scripted double_gamma (?at 0) = Fin 0"
    unfolding gamma_at_0
    by (simp add: new_prob_def new_x_def offset_def scripted_def double_gamma_def)
  then have h4: "\<forall>j<Suc 0. new_prob scripted double_gamma (?at j) = Fin 0"
    by simp
  have h5: "(0::real) < exp (- (1/2)) / 4" by simp
  have h6: "new_prob scripted double_gamma (?at (Suc 0)) = Fin (exp (- (1/2)) / 4)"
    unfolding gamma_at_1
    by (simp add: new_prob_def new_x_def offset_def scripted_def double_gamma_def)
  have h7: "offset scripted (?at (Suc 0)) = 1/2"
    unfolding gamma_at_1 by (simp add: offset_def scripted_def)
  from zero_start [OF h1 h2 h3 h4] h5 h6
  have "acceptance scripted double_gamma (?at (Suc 0)) = PInf \<and>
      [Fin 0, Fin (1/2)] ! Suc 0 = f64_add (mean double_gamma) (Fin (offset scripted (?at (Suc 0))))"
    by blast
  with h0 h1 h2 h3 h5 h6 h7 show ?thesis
    by (simp add: double_gamma_def)
qed

text \<open>
  The claim as stated fails on the double gamma distribution, whose density is zero at its
  mean 0: with the normal draw 1/2 the candidate has positive density, the ratio is
  +infinity, and the candidate is recorded whatever the uniform draw (here 9/10).
\<close>

theorem zero_start_counterexample:
  "pdf double_gamma (mean double_gamma) = Fin 0 \<and>
   metropolis scripted double_gamma 1 [1/2, 9/10] = (Inr [Fin (1/2)], []) \<and>
   [Fin (1/2)] ! 0 \<noteq> mean double_gamma"
  unfolding gamma_one_step by (simp add: double_gamma_def)

end
